theory Spec2Isabelle
  imports
    Complex_Main
    "HOL-Library.Sublist"
    "HOL-Library.AList"
    "HOL-Library.Char_ord"
    "HOL-Library.List_Lexorder"
    "HOL-Library.Product_Lexorder"
    "HOL-Library.Word"
begin

section \<open>IndexedCP: resumable chunked upload (client.py, server.py)\<close>

text \<open>
  A shallow embedding of \<^verbatim>\<open>src/python/indexedcp/server.py\<close> and
  \<^verbatim>\<open>src/python/indexedcp/client.py\<close>. Python strings are \<open>string\<close> (byte
  strings: header values are Latin-1 text), \<open>bytes\<close> values are lists of 8-bit words,
  Python integers are \<open>int\<close>. Every \<^verbatim>\<open>raise\<close> is a value \<open>Inl e\<close> of a sum type.
  The two SQLite tables are lists of rows; the files written by the server are a map from
  path to content.
\<close>

type_synonym bytes = "8 word list"

text \<open>
  Exceptions of the client. \<open>RequestsError cause\<close> is an exception that \<open>requests\<close>
  itself raises, an instance of a subclass of \<open>requests.RequestException\<close>: a
  connection failure or time-out (with its message), the HTTPError of
  \<open>raise_for_status\<close> (with the status), or a URL that \<open>requests\<close> refuses.
  \<open>RequestException index file_name cause\<close> is the \<open>requests.RequestException\<close> that
  \<^verbatim>\<open>upload_chunk\<close> raises \<^verbatim>\<open>from\<close> such an exception, with the chunk index and
  the file name of its message. \<open>is_request_exception\<close> is what
  \<^verbatim>\<open>except requests.RequestException\<close> catches.
\<close>

datatype cause =
    ConnectionFailed string
  | HTTPError nat
  | InvalidURL

datatype exn =
    RequestException int string cause
  | RequestsError cause
  | ValueError string
  | TypeError string
  | AttributeError string
  | FileNotFoundError string

definition is_request_exception :: "exn \<Rightarrow> bool" where
  "is_request_exception e =
     (case e of RequestException i f c \<Rightarrow> True | RequestsError c \<Rightarrow> True | _ \<Rightarrow> False)"

subsection \<open>Python's \<open>int(str)\<close>, \<open>str(int)\<close> and \<open>str.strip\<close>\<close>

text \<open>
  \<open>int(s)\<close> for a string: surrounding white space is stripped, one sign is allowed, and
  the rest is decimal digits that single underscores may separate; anything else raises
  ValueError (\<open>None\<close>). The limit that recent CPython versions put on the number of
  digits is not modelled.
\<close>

definition is_space :: "char \<Rightarrow> bool" where
  "is_space c = (of_char c \<in> {9, 10, 11, 12, 13, 28, 29, 30, 31, 32, 133, 160 :: nat})"

definition strip :: "string \<Rightarrow> string" where
  "strip s = rev (dropWhile is_space (rev (dropWhile is_space s)))"

definition is_digit :: "char \<Rightarrow> bool" where
  "is_digit c = (48 \<le> (of_char c :: nat) \<and> (of_char c :: nat) \<le> 57)"

definition digit_val :: "char \<Rightarrow> nat" where
  "digit_val c = of_char c - 48"

fun grouped :: "string \<Rightarrow> bool" where
  "grouped [] = False"
| "grouped [c] = is_digit c"
| "grouped (c # d # r) =
     (is_digit c \<and> (if d = CHR ''_'' then grouped r else grouped (d # r)))"

definition digits_value :: "string \<Rightarrow> nat" where
  "digits_value s = foldl (\<lambda>a c. 10 * a + digit_val c) 0 (filter (\<lambda>c. c \<noteq> CHR ''_'') s)"

definition py_int :: "string \<Rightarrow> int option" where
  "py_int s =
     (case strip s of
        [] \<Rightarrow> None
      | c # r \<Rightarrow>
          if c = CHR ''-'' then (if grouped r then Some (- int (digits_value r)) else None)
          else if c = CHR ''+'' then (if grouped r then Some (int (digits_value r)) else None)
          else (if grouped (c # r) then Some (int (digits_value (c # r))) else None))"

definition digit_char :: "nat \<Rightarrow> char" where
  "digit_char d = char_of (48 + d)"

fun str_nat :: "nat \<Rightarrow> string" where
  "str_nat n = (if n < 10 then [digit_char n] else str_nat (n div 10) @ [digit_char (n mod 10)])"

declare str_nat.simps [simp del]

definition py_str :: "int \<Rightarrow> string" where
  "py_str i = (if i < 0 then CHR ''-'' # str_nat (nat (- i)) else str_nat (nat i))"

subsection \<open>Paths\<close>

text \<open>
  \<open>os.path.basename\<close> is the part after the last slash; \<open>os.path.join\<close> of two
  components is the POSIX one. The client holds a \<open>pathlib.Path\<close>; the model holds its
  string form \<open>str(path)\<close>, and \<open>path_name\<close> is \<open>Path(p).name\<close> for such a string: its
  last component, which is empty for the path \<open>.\<close> and for the root.
\<close>

definition basename :: "string \<Rightarrow> string" where
  "basename p = rev (takeWhile (\<lambda>c. c \<noteq> CHR ''/'') (rev p))"

definition os_path_join :: "string \<Rightarrow> string \<Rightarrow> string" where
  "os_path_join a b =
     (if prefix ''/'' b then b
      else if a = [] \<or> suffix ''/'' a then a @ b
      else a @ ''/'' @ b)"

definition path_name :: "string \<Rightarrow> string" where
  "path_name p = (if p = ''.'' then [] else basename p)"

subsection \<open>JSON values and HTTP messages\<close>

text \<open>
  JSON numbers with a fraction or an exponent are left out. A response body is either
  the JSON document that \<open>json.dumps\<close> wrote for a value (\<open>response.json()\<close> returns the
  value) or a text that is not JSON (\<open>response.json()\<close> raises).
\<close>

datatype json =
    JNull
  | JBool bool
  | JInt int
  | JStr string
  | JList "json list"
  | JObj "(string \<times> json) list"

datatype body = JsonDoc json | Raw string

datatype http_method = GET | POST | OPTIONS

record request =
  rq_method :: http_method
  rq_target :: string
  authorization :: "string option"
  x_chunk_index :: "string option"
  x_file_name :: "string option"
  content_length :: "string option"
  rq_body :: bytes

record http_response =
  status_code :: nat
  content_type :: string
  body :: body

definition header_get :: "string option \<Rightarrow> string \<Rightarrow> string" where
  "header_get h dflt = (case h of None \<Rightarrow> dflt | Some v \<Rightarrow> v)"

subsection \<open>The server: IndexCPServer and its chunk tracker\<close>

text \<open>
  \<open>received_chunks\<close> is the table of the same name, a list of rows (filename,
  chunk\_index) in insertion order. \<open>files\<close> is the content of the files under the
  output directory, by path; \<open>open_error\<close> gives, for the paths on which
  \<open>open(path, 'ab')\<close> raises (a directory, a missing parent, no permission), the text of
  the exception. The naming callback takes the client file name and the chunk-index
  header (the handler object it also receives is left out); \<open>Inl m\<close> as its result
  stands for a callback that raises an exception with text \<open>m\<close>. Exceptions raised
  inside the handler are represented by their text \<open>str(e)\<close>; the text of the
  ValueError of \<open>int\<close> quotes the literal as \<open>repr\<close> does for a string without
  quotes, backslashes or control characters. The tracking database itself is taken to
  be available.
\<close>

record server =
  api_key :: string
  output_dir :: string
  filename_generator :: "(string \<Rightarrow> string \<Rightarrow> string + string) option"
  open_error :: "string \<Rightarrow> string option"
  files :: "string \<rightharpoonup> bytes"
  received_chunks :: "(string \<times> int) list"

definition mark_chunk_received :: "server \<Rightarrow> string \<Rightarrow> int \<Rightarrow> server" where
  "mark_chunk_received s filename chunk_index =
     (if (filename, chunk_index) \<in> set (received_chunks s) then s
      else s\<lparr>received_chunks := received_chunks s @ [(filename, chunk_index)]\<rparr>)"

definition is_chunk_received :: "server \<Rightarrow> string \<Rightarrow> int \<Rightarrow> bool" where
  "is_chunk_received s filename chunk_index =
     (filter (\<lambda>r. fst r = filename \<and> snd r = chunk_index) (received_chunks s) \<noteq> [])"

definition get_received_chunks :: "server \<Rightarrow> string \<Rightarrow> int set" where
  "get_received_chunks s filename =
     set (sort (map snd (filter (\<lambda>r. fst r = filename) (received_chunks s))))"

definition clear_chunk_tracking :: "server \<Rightarrow> string option \<Rightarrow> server" where
  "clear_chunk_tracking s filename =
     (case filename of
        Some f \<Rightarrow>
          if f \<noteq> [] then s\<lparr>received_chunks := filter (\<lambda>r. fst r \<noteq> f) (received_chunks s)\<rparr>
          else s\<lparr>received_chunks := []\<rparr>
      | None \<Rightarrow> s\<lparr>received_chunks := []\<rparr>)"


text \<open>
  Writing to a file opened in mode \<open>'ab'\<close>: a file that does not exist yet is created
  empty, and the bytes are appended.
\<close>

definition file_content :: "server \<Rightarrow> string \<Rightarrow> bytes" where
  "file_content s path = (case files s path of None \<Rightarrow> [] | Some old \<Rightarrow> old)"

definition append_file :: "server \<Rightarrow> string \<Rightarrow> bytes \<Rightarrow> server" where
  "append_file s path chunk_data = s\<lparr>files := (files s)(path \<mapsto> file_content s path @ chunk_data)\<rparr>"

subsection \<open>The request handler: IndexCPRequestHandler\<close>

text \<open>
  A handler returns the response it sent (\<open>None\<close> when an exception left the handler
  before any response), the server afterwards, and the part of the request body that it
  did not read from \<open>rfile\<close>. The body stream ends after the body: reading more than is
  there returns what is there.
\<close>

record outcome =
  reply :: "http_response option"
  state :: server
  unread :: bytes

definition send_json_response :: "nat \<Rightarrow> json \<Rightarrow> http_response" where
  "send_json_response code data =
     \<lparr>status_code = code, content_type = ''application/json'', body = JsonDoc data\<rparr>"

definition send_error :: "nat \<Rightarrow> string \<Rightarrow> http_response" where
  "send_error code message = send_json_response code (JObj [(''error'', JStr message)])"

definition send_404 :: http_response where
  "send_404 = \<lparr>status_code = 404, content_type = ''text/plain'', body = Raw ''Not Found''\<rparr>"

definition rfile_read :: "int \<Rightarrow> bytes \<Rightarrow> string + (bytes \<times> bytes)" where
  "rfile_read n rfile =
     (if n < - 1 then Inl ''read length must be non-negative or -1''
      else if n = - 1 then Inr (rfile, [])
      else Inr (take (nat n) rfile, drop (nat n) rfile))"

definition resolve_filename :: "server \<Rightarrow> string \<Rightarrow> string \<Rightarrow> string + string" where
  "resolve_filename s client_filename chunk_index =
     (case filename_generator s of
        Some g \<Rightarrow> g client_filename chunk_index
      | None \<Rightarrow> Inr (basename client_filename))"

definition int_of_header :: "string \<Rightarrow> string + int" where
  "int_of_header v =
     (case py_int v of
        None \<Rightarrow> Inl (''invalid literal for int() with base 10: '' @ [CHR 0x27] @ v @ [CHR 0x27])
      | Some i \<Rightarrow> Inr i)"

text \<open>
  The column \<open>chunk_index\<close> is an SQLite INTEGER: the \<open>sqlite3\<close> module raises
  OverflowError when it is given an integer outside 64 bits.
\<close>

definition sqlite_integer :: "int \<Rightarrow> bool" where
  "sqlite_integer i = (- (2 ^ 63) \<le> i \<and> i < 2 ^ 63)"

text \<open>The two \<open>response_data\<close> dictionaries of \<^verbatim>\<open>_handle_upload\<close>.\<close>

definition already_received_body :: "string \<Rightarrow> int \<Rightarrow> string \<Rightarrow> json" where
  "already_received_body actual_filename idx client_filename =
     JObj [(''message'', JStr ''Chunk already received (skipped)''),
           (''actualFilename'', JStr actual_filename),
           (''chunkIndex'', JInt idx),
           (''clientFilename'', JStr client_filename),
           (''alreadyReceived'', JBool True)]"

definition chunk_received_body :: "string \<Rightarrow> int \<Rightarrow> string \<Rightarrow> json" where
  "chunk_received_body actual_filename idx client_filename =
     JObj [(''message'', JStr ''Chunk received''),
           (''actualFilename'', JStr actual_filename),
           (''chunkIndex'', JInt idx),
           (''clientFilename'', JStr client_filename)]"

text \<open>
  The check of the API key that opens \<^verbatim>\<open>_handle_upload\<close> and
  \<^verbatim>\<open>_handle_status\<close>: the request passes when its Authorization header is
  \<open>Bearer\<close>, a space and the server's key.
\<close>

definition authenticated :: "server \<Rightarrow> request \<Rightarrow> bool" where
  "authenticated s rq =
     (prefix ''Bearer '' (header_get (authorization rq) [])
      \<and> drop 7 (header_get (authorization rq) []) = api_key s)"

text \<open>The body of the \<^verbatim>\<open>try\<close> block of \<^verbatim>\<open>_handle_upload\<close>.\<close>

definition upload_try ::
  "server \<Rightarrow> string \<Rightarrow> string \<Rightarrow> int \<Rightarrow> bytes \<Rightarrow> (string + http_response) \<times> server \<times> bytes" where
  "upload_try s chunk_index client_filename content_len rfile =
     (case resolve_filename s client_filename chunk_index of
        Inl e \<Rightarrow> (Inl e, s, rfile)
      | Inr actual_filename \<Rightarrow>
          (case int_of_header chunk_index of
             Inl e \<Rightarrow> (Inl e, s, rfile)
           | Inr idx \<Rightarrow>
               if \<not> sqlite_integer idx then
                 (Inl ''Python int too large to convert to SQLite INTEGER'', s, rfile)
               else if is_chunk_received s actual_filename idx then
                 (Inr (send_json_response 200
                    (already_received_body actual_filename idx client_filename)), s, rfile)
               else
                 (let output_file = os_path_join (output_dir s) actual_filename in
                  case rfile_read content_len rfile of
                    Inl e \<Rightarrow> (Inl e, s, rfile)
                  | Inr (chunk_data, rest) \<Rightarrow>
                      (case open_error s output_file of
                         Some e \<Rightarrow> (Inl e, s, rest)
                       | None \<Rightarrow>
                        (let s1 = append_file s output_file chunk_data;
                             s2 = mark_chunk_received s1 actual_filename idx
                         in (Inr (send_json_response 200
                               (chunk_received_body actual_filename idx client_filename)),
                             s2, rest))))))"

definition handle_upload :: "server \<Rightarrow> request \<Rightarrow> outcome" where
  "handle_upload s rq =
     (let auth_header = header_get (authorization rq) [] in
      if \<not> prefix ''Bearer '' auth_header then
        \<lparr>reply = Some (send_error 401 ''Invalid or missing API key''), state = s,
         unread = rq_body rq\<rparr>
      else if drop 7 auth_header \<noteq> api_key s then
        \<lparr>reply = Some (send_error 401 ''Invalid or missing API key''), state = s,
         unread = rq_body rq\<rparr>
      else
        (let chunk_index = header_get (x_chunk_index rq) ''0'';
             client_filename = header_get (x_file_name rq) ''uploaded_file.txt''
         in case (case content_length rq of None \<Rightarrow> Inr 0 | Some v \<Rightarrow> int_of_header v) of
              Inl e \<Rightarrow> \<lparr>reply = None, state = s, unread = rq_body rq\<rparr>
            | Inr content_len \<Rightarrow>
                (case upload_try s chunk_index client_filename content_len (rq_body rq) of
                   (Inr resp, s', rest) \<Rightarrow> \<lparr>reply = Some resp, state = s', unread = rest\<rparr>
                 | (Inl e, s', rest) \<Rightarrow>
                     \<lparr>reply = Some (send_error 500 (''Upload error: '' @ e)),
                      state = s', unread = rest\<rparr>)))"

text \<open>
  The query string of the request target, as \<open>urlparse\<close> and \<open>parse_qs\<close> read it:
  the part between the first \<open>?\<close> and the first \<open>#\<close>, split at \<open>&\<close> (the only
  separator since Python 3.10); a field without \<open>=\<close> or with an empty value is
  dropped; \<open>+\<close> is a space and \<open>%XX\<close> a byte, in names and in values (the decoded
  bytes are kept as they are). The first value of a name counts.
\<close>

fun split_on :: "char \<Rightarrow> string \<Rightarrow> string list" where
  "split_on sep [] = [[]]"
| "split_on sep (c # r) =
     (if c = sep then [] # split_on sep r
      else (case split_on sep r of [] \<Rightarrow> [[c]] | h # t \<Rightarrow> (c # h) # t))"

definition is_hex :: "char \<Rightarrow> bool" where
  "is_hex c = (c \<in> set ''0123456789abcdefABCDEF'')"

definition hex_val :: "char \<Rightarrow> nat" where
  "hex_val c =
     (let n = (of_char c :: nat) in
      if n \<le> 57 then n - 48 else if n \<le> 70 then n - 55 else n - 87)"

fun unquote :: "string \<Rightarrow> string" where
  "unquote [] = []"
| "unquote (c # r) =
     (if c = CHR ''%'' then
        (case r of
           a # b # r' \<Rightarrow>
             if is_hex a \<and> is_hex b then char_of (16 * hex_val a + hex_val b) # unquote r'
             else c # unquote r
         | _ \<Rightarrow> c # unquote r)
      else c # unquote r)"

definition unquote_plus :: "string \<Rightarrow> string" where
  "unquote_plus v = unquote (map (\<lambda>c. if c = CHR ''+'' then CHR '' '' else c) v)"

definition url_query :: "string \<Rightarrow> string" where
  "url_query target = drop 1 (dropWhile (\<lambda>c. c \<noteq> CHR ''?'') (takeWhile (\<lambda>c. c \<noteq> CHR ''#'') target))"

definition parse_qs :: "string \<Rightarrow> (string \<times> string) list" where
  "parse_qs query =
     concat (map (\<lambda>name_value.
        let name = takeWhile (\<lambda>c. c \<noteq> CHR ''='') name_value;
            rest = dropWhile (\<lambda>c. c \<noteq> CHR ''='') name_value
        in if rest = [] \<or> drop 1 rest = [] then []
           else [(unquote_plus name, unquote_plus (drop 1 rest))])
       (split_on CHR ''&'' query))"

definition query_filename :: "string \<Rightarrow> string option" where
  "query_filename target = map_of (parse_qs (url_query target)) ''filename''"

definition handle_status :: "server \<Rightarrow> request \<Rightarrow> outcome" where
  "handle_status s rq =
     (let auth_header = header_get (authorization rq) [] in
      if \<not> prefix ''Bearer '' auth_header then
        \<lparr>reply = Some (send_error 401 ''Invalid or missing API key''), state = s,
         unread = rq_body rq\<rparr>
      else if drop 7 auth_header \<noteq> api_key s then
        \<lparr>reply = Some (send_error 401 ''Invalid or missing API key''), state = s,
         unread = rq_body rq\<rparr>
      else
        (case query_filename (rq_target rq) of
           None \<Rightarrow>
             \<lparr>reply = Some (send_error 400 ''Missing filename parameter''), state = s,
              unread = rq_body rq\<rparr>
         | Some filename \<Rightarrow>
             if filename = [] then
               \<lparr>reply = Some (send_error 400 ''Missing filename parameter''), state = s,
                unread = rq_body rq\<rparr>
             else
               \<lparr>reply = Some (send_json_response 200
                  (JObj [(''filename'', JStr filename),
                         (''receivedChunks'',
                            JList (map JInt (sorted_list_of_set (get_received_chunks s filename))))])),
                state = s, unread = rq_body rq\<rparr>))"

text \<open>\<^verbatim>\<open>do_POST\<close>, \<^verbatim>\<open>do_GET\<close> and \<^verbatim>\<open>do_OPTIONS\<close>.\<close>

definition serve :: "server \<Rightarrow> request \<Rightarrow> outcome" where
  "serve s rq =
     (case rq_method rq of
        POST \<Rightarrow>
          if rq_target rq = ''/upload'' then handle_upload s rq
          else \<lparr>reply = Some send_404, state = s, unread = rq_body rq\<rparr>
      | GET \<Rightarrow>
          if prefix ''/upload/status'' (rq_target rq) then handle_status s rq
          else \<lparr>reply = Some send_404, state = s, unread = rq_body rq\<rparr>
      | OPTIONS \<Rightarrow>
          \<lparr>reply = Some \<lparr>status_code = 200, content_type = [], body = Raw []\<rparr>, state = s,
           unread = rq_body rq\<rparr>)"

subsection \<open>The transport between client and server\<close>

text \<open>
  The client reaches the server through \<open>requests\<close>. Each request consumes one event of
  the transport's script \<open>net\<close>: the request is delivered and answered by the server
  (also when the script is exhausted), it is lost before it reaches the server, the
  server handles it but its response is lost, or another party answers it. A peer that
  never answers is not modelled. \<open>wire\<close> records every request that was sent, \<open>slept\<close>
  every \<open>time.sleep\<close>. \<open>chunks\<close> is the client's table of buffered chunks, rows in
  insertion order, and \<open>local_files\<close> are the sender's files by path.
\<close>

datatype net_event =
    Deliver
  | ConnectionError string
  | ResponseLost string
  | Answered http_response

datatype http_outcome = Raised cause | Returned http_response

record chunk_record =
  cr_id :: string
  file_name :: string
  chunk_index :: int
  data :: bytes

record world =
  srv :: server
  net :: "net_event list"
  wire :: "request list"
  slept :: "real list"
  chunks :: "chunk_record list"
  local_files :: "string \<rightharpoonup> bytes"

definition send_request :: "request \<Rightarrow> world \<Rightarrow> http_outcome \<times> world" where
  "send_request rq w =
     (let w1 = w\<lparr>net := drop 1 (net w), wire := wire w @ [rq]\<rparr> in
      case (case net w of [] \<Rightarrow> Deliver | ev # _ \<Rightarrow> ev) of
        ConnectionError m \<Rightarrow> (Raised (ConnectionFailed m), w1)
      | Answered r \<Rightarrow> (Returned r, w1)
      | ResponseLost m \<Rightarrow> (Raised (ConnectionFailed m), w1\<lparr>srv := state (serve (srv w1) rq)\<rparr>)
      | Deliver \<Rightarrow>
          (let out = serve (srv w1) rq in
           case reply out of
             None \<Rightarrow>
               (Raised (ConnectionFailed ''Remote end closed connection without response''),
                w1\<lparr>srv := state out\<rparr>)
           | Some r \<Rightarrow> (Returned r, w1\<lparr>srv := state out\<rparr>)))"

text \<open>
  The request target that \<open>requests\<close> sends for a URL: the fragment is cut off, the scheme
  must be http or https (otherwise \<open>requests\<close> raises before sending), and the target is
  what follows the authority. \<open>requests\<close> percent-encodes the characters that may not
  stand in a URL and \<open>parse_qs\<close> decodes them again, so the model sends them as they are.
\<close>

definition target_of :: "string \<Rightarrow> string" where
  "target_of rest =
     (let p = dropWhile (\<lambda>c. c \<noteq> CHR ''/'' \<and> c \<noteq> CHR ''?'') rest in
      case p of [] \<Rightarrow> ''/'' | c # _ \<Rightarrow> if c = CHR ''?'' then CHR ''/'' # p else p)"

definition url_target :: "string \<Rightarrow> string option" where
  "url_target url =
     (let u = takeWhile (\<lambda>c. c \<noteq> CHR ''#'') url in
      if prefix ''http://'' u then Some (target_of (drop 7 u))
      else if prefix ''https://'' u then Some (target_of (drop 8 u))
      else None)"

text \<open>
  The requests that the client sends. \<open>requests\<close> adds the Content-Length of the body
  to a POST; header values are transported as they are.
\<close>

definition post_request :: "string \<Rightarrow> string \<Rightarrow> string \<Rightarrow> string \<Rightarrow> bytes \<Rightarrow> request" where
  "post_request tgt auth index_header name_header payload =
     \<lparr>rq_method = POST, rq_target = tgt, authorization = Some auth,
      x_chunk_index = Some index_header, x_file_name = Some name_header,
      content_length = Some (py_str (int (length payload))), rq_body = payload\<rparr>"

definition get_request :: "string \<Rightarrow> string \<Rightarrow> request" where
  "get_request tgt auth =
     \<lparr>rq_method = GET, rq_target = tgt, authorization = Some auth,
      x_chunk_index = None, x_file_name = None, content_length = None, rq_body = []\<rparr>"

definition requests_post ::
  "string \<Rightarrow> string \<Rightarrow> string \<Rightarrow> string \<Rightarrow> bytes \<Rightarrow> world \<Rightarrow> http_outcome \<times> world" where
  "requests_post url auth index_header name_header payload w =
     (case url_target url of
        None \<Rightarrow> (Raised InvalidURL, w)
      | Some tgt \<Rightarrow> send_request (post_request tgt auth index_header name_header payload) w)"

definition requests_get :: "string \<Rightarrow> string \<Rightarrow> world \<Rightarrow> http_outcome \<times> world" where
  "requests_get url auth w =
     (case url_target url of
        None \<Rightarrow> (Raised InvalidURL, w)
      | Some tgt \<Rightarrow> send_request (get_request tgt auth) w)"

text \<open>\<open>response.raise_for_status()\<close> raises for the statuses 400 to 599.\<close>

definition raise_for_status :: "http_response \<Rightarrow> bool" where
  "raise_for_status r = (400 \<le> status_code r \<and> status_code r < 600)"


subsection \<open>The client: IndexCPClient\<close>

text \<open>
  \<open>client_api_key\<close> is the key that \<^verbatim>\<open>get_api_key\<close> resolves (attribute, environment
  or prompt). The retry delay is a Python float; the model takes it as a real number
  (a product with a power of two is exact in binary floating point short of overflow).
\<close>

record client =
  chunk_size :: int
  max_retries :: int
  initial_retry_delay :: real
  client_api_key :: string

definition get_api_key :: "client \<Rightarrow> string" where
  "get_api_key c = client_api_key c"

text \<open>
  What \<^verbatim>\<open>upload_chunk\<close> returns: the dictionary parsed from a JSON response, or the
  dictionary \<open>{"message": response.text}\<close> for the text of the body.
\<close>

datatype response_data = Parsed "(string \<times> json) list" | Message body

text \<open>
  What \<^verbatim>\<open>upload_chunk\<close> makes of the outcome of its \<open>requests.post\<close>: the rest of
  its \<^verbatim>\<open>try\<close> block and its \<^verbatim>\<open>except\<close> clause.
\<close>

definition upload_result :: "int \<Rightarrow> string \<Rightarrow> http_outcome \<Rightarrow> exn + response_data" where
  "upload_result index fname out =
     (case out of
        Raised e \<Rightarrow> Inl (RequestException index fname e)
      | Returned response \<Rightarrow>
          if status_code response = 401 then
            Inl (ValueError ''Authentication failed: Invalid API key'')
          else if raise_for_status response then
            Inl (RequestException index fname (HTTPError (status_code response)))
          else if sublist ''application/json'' (content_type response) then
            (case body response of
               JsonDoc (JObj kv) \<Rightarrow> Inr (Parsed kv)
             | JsonDoc _ \<Rightarrow> Inl (AttributeError ''get'')
             | Raw t \<Rightarrow> Inr (Message (Raw t)))
          else Inr (Message (body response)))"

definition bearer :: "client \<Rightarrow> string \<Rightarrow> string" where
  "bearer c key = ''Bearer '' @ (if key = [] then get_api_key c else key)"

definition upload_chunk ::
  "client \<Rightarrow> string \<Rightarrow> bytes \<Rightarrow> int \<Rightarrow> string \<Rightarrow> string \<Rightarrow> world \<Rightarrow> (exn + response_data) \<times> world" where
  "upload_chunk c server_url chunk_data index fname key w =
     (case requests_post server_url (bearer c key) (py_str index) fname chunk_data w of
        (out, w') \<Rightarrow> (upload_result index fname out, w'))"

definition py_sleep :: "real \<Rightarrow> world \<Rightarrow> exn + world" where
  "py_sleep d w =
     (if d < 0 then Inl (ValueError ''sleep length must be non-negative'')
      else Inr (w\<lparr>slept := slept w @ [d]\<rparr>))"

text \<open>
  The loop \<^verbatim>\<open>for attempt in range(self.max_retries)\<close> of
  \<^verbatim>\<open>_upload_chunk_with_retry\<close>, from attempt \<open>attempt\<close> with \<open>n\<close> iterations left,
  and the \<^verbatim>\<open>raise last_exception\<close> after it.
\<close>

fun retry_loop ::
  "client \<Rightarrow> string \<Rightarrow> bytes \<Rightarrow> int \<Rightarrow> string \<Rightarrow> string \<Rightarrow> exn option \<Rightarrow> nat \<Rightarrow> nat \<Rightarrow> world
     \<Rightarrow> (exn + response_data) \<times> world" where
  "retry_loop c server_url chunk_data index fname key last_exception attempt 0 w =
     (case last_exception of
        None \<Rightarrow> (Inl (TypeError ''exceptions must derive from BaseException''), w)
      | Some e \<Rightarrow> (Inl e, w))"
| "retry_loop c server_url chunk_data index fname key last_exception attempt (Suc n) w =
     (case upload_chunk c server_url chunk_data index fname key w of
        (Inr r, w') \<Rightarrow> (Inr r, w')
      | (Inl e, w') \<Rightarrow>
          if is_request_exception e then
            (if int attempt < max_retries c - 1 then
               (case py_sleep (initial_retry_delay c * 2 ^ attempt) w' of
                  Inl e' \<Rightarrow> (Inl e', w')
                | Inr w'' \<Rightarrow>
                    retry_loop c server_url chunk_data index fname key (Some e) (Suc attempt) n w'')
             else
               retry_loop c server_url chunk_data index fname key (Some e) (Suc attempt) n w')
          else (Inl e, w'))"

definition upload_chunk_with_retry ::
  "client \<Rightarrow> string \<Rightarrow> bytes \<Rightarrow> int \<Rightarrow> string \<Rightarrow> string \<Rightarrow> world \<Rightarrow> (exn + response_data) \<times> world" where
  "upload_chunk_with_retry c server_url chunk_data index fname key w =
     retry_loop c server_url chunk_data index fname key None 0 (nat (max_retries c)) w"

text \<open>
  \<open>str.rsplit(sep, 1)[0]\<close>: the part before the last occurrence of \<open>sep\<close>, or the whole
  string (\<open>None\<close> here) when there is none.
\<close>

fun rsplit_head :: "string \<Rightarrow> string \<Rightarrow> string option" where
  "rsplit_head sep [] = (if sep = [] then Some [] else None)"
| "rsplit_head sep (c # r) =
     (case rsplit_head sep r of
        Some h \<Rightarrow> Some (c # h)
      | None \<Rightarrow> if prefix sep (c # r) then Some [] else None)"

definition base_url_of :: "string \<Rightarrow> string" where
  "base_url_of server_url =
     (case rsplit_head ''/upload'' server_url of None \<Rightarrow> server_url | Some h \<Rightarrow> h)"

text \<open>
  \<open>set(v)\<close> for a JSON value: a list of hashable values gives their set, a string the
  set of its characters, an object the set of its keys; a number, a truth value and
  \<open>null\<close> are not iterable and a list or an object inside a list is not hashable
  (TypeError). \<open>py_in\<close> is \<open>i in S\<close> for an integer: Python's \<open>True\<close> equals 1 and
  \<open>False\<close> equals 0.
\<close>

definition hashable :: "json \<Rightarrow> bool" where
  "hashable v = (case v of JList _ \<Rightarrow> False | JObj _ \<Rightarrow> False | _ \<Rightarrow> True)"

definition py_set :: "json \<Rightarrow> exn + json set" where
  "py_set v =
     (case v of
        JList xs \<Rightarrow>
          if list_all hashable xs then Inr (set xs) else Inl (TypeError ''unhashable type'')
      | JStr s \<Rightarrow> Inr (set (map (\<lambda>ch. JStr [ch]) s))
      | JObj kv \<Rightarrow> Inr (set (map (\<lambda>p. JStr (fst p)) kv))
      | _ \<Rightarrow> Inl (TypeError ''object is not iterable''))"

definition py_in :: "int \<Rightarrow> json set \<Rightarrow> bool" where
  "py_in i S =
     (JInt i \<in> S \<or> (i = 1 \<and> JBool True \<in> S) \<or> (i = 0 \<and> JBool False \<in> S))"

text \<open>The body of the \<^verbatim>\<open>try\<close> block of \<^verbatim>\<open>_get_received_chunks\<close> after the request.\<close>

definition status_try :: "http_outcome \<Rightarrow> exn + json set" where
  "status_try out =
     (case out of
        Raised e \<Rightarrow> Inl (RequestsError e)
      | Returned response \<Rightarrow>
          if raise_for_status response then
            Inl (RequestsError (HTTPError (status_code response)))
          else
            (case body response of
               Raw t \<Rightarrow> Inl (ValueError ''Expecting value'')
             | JsonDoc (JObj kv) \<Rightarrow>
                 (case map_of kv ''receivedChunks'' of
                    None \<Rightarrow> Inr {}
                  | Some v \<Rightarrow> py_set v)
             | JsonDoc _ \<Rightarrow> Inl (AttributeError ''get'')))"

definition status_url_of :: "string \<Rightarrow> string \<Rightarrow> string" where
  "status_url_of server_url filename =
     base_url_of server_url @ ''/upload/status?filename='' @ filename"

definition get_received_chunks_client ::
  "client \<Rightarrow> string \<Rightarrow> string \<Rightarrow> string \<Rightarrow> world \<Rightarrow> json set \<times> world" where
  "get_received_chunks_client c server_url filename key w =
     (case requests_get (status_url_of server_url filename) (''Bearer '' @ key) w of
        (out, w') \<Rightarrow>
          (case status_try out of
             Inr S \<Rightarrow> (S, w')
           | Inl e \<Rightarrow> ({}, w')))"

text \<open>
  The failures of the status query: no response (a connection error, a time-out, a
  refused URL), a response with a 4xx or 5xx status, a body that is not JSON, and a
  JSON body that is not an object, or has no \<open>receivedChunks\<close>, or whose
  \<open>receivedChunks\<close> is neither a list of hashable values, a string nor an object.
\<close>

definition malformed_status :: "json \<Rightarrow> bool" where
  "malformed_status j =
     (case j of
        JObj kv \<Rightarrow>
          (case map_of kv ''receivedChunks'' of
             None \<Rightarrow> True
           | Some (JList xs) \<Rightarrow> \<not> list_all hashable xs
           | Some (JStr s) \<Rightarrow> False
           | Some (JObj m) \<Rightarrow> False
           | Some _ \<Rightarrow> True)
      | _ \<Rightarrow> True)"

definition status_failure :: "http_outcome \<Rightarrow> bool" where
  "status_failure out =
     (case out of
        Raised e \<Rightarrow> True
      | Returned response \<Rightarrow>
          raise_for_status response
          \<or> (case body response of Raw t \<Rightarrow> True | JsonDoc j \<Rightarrow> malformed_status j))"

text \<open>
  The chunks that the loop \<^verbatim>\<open>while True: chunk_data = f.read(self.chunk_size)\<close>
  reads from a file: \<open>read\<close> of a negative size other than \<open>-1\<close> raises, \<open>read(-1)\<close> is
  the rest of the file, and the loop ends at the first empty chunk.
\<close>

function read_chunks :: "nat \<Rightarrow> bytes \<Rightarrow> bytes list" where
  "read_chunks n f = (if n = 0 \<or> f = [] then [] else take n f # read_chunks n (drop n f))"
  by pat_completeness auto
termination
  by (relation "measure (\<lambda>(n, f). length f)") auto

declare read_chunks.simps [simp del]

definition file_chunks :: "int \<Rightarrow> bytes \<Rightarrow> exn + bytes list" where
  "file_chunks n f =
     (if n < - 1 then Inl (ValueError ''read length must be non-negative or -1'')
      else if n = - 1 then Inr (if f = [] then [] else [f])
      else Inr (read_chunks (nat n) f))"

fun upload_loop ::
  "client \<Rightarrow> string \<Rightarrow> string \<Rightarrow> string \<Rightarrow> json set \<Rightarrow> bytes list \<Rightarrow> int \<Rightarrow> world
     \<Rightarrow> (exn + unit) \<times> world" where
  "upload_loop c server_url file_path key received [] idx w = (Inr (), w)"
| "upload_loop c server_url file_path key received (chunk_data # rest) idx w =
     (if py_in idx received then
        upload_loop c server_url file_path key received rest (idx + 1) w
      else
        (case upload_chunk_with_retry c server_url chunk_data idx file_path key w of
           (Inl e, w') \<Rightarrow> (Inl e, w')
         | (Inr r, w') \<Rightarrow> upload_loop c server_url file_path key received rest (idx + 1) w'))"

definition buffer_and_upload :: "client \<Rightarrow> string \<Rightarrow> string \<Rightarrow> world \<Rightarrow> (exn + unit) \<times> world" where
  "buffer_and_upload c file_path server_url w =
     (let key = get_api_key c in
      case local_files w file_path of
        None \<Rightarrow> (Inl (FileNotFoundError file_path), w)
      | Some content \<Rightarrow>
          (let server_filename = path_name file_path in
           case get_received_chunks_client c server_url server_filename key w of
             (received, w1) \<Rightarrow>
               (case file_chunks (chunk_size c) content of
                  Inl e \<Rightarrow> (Inl e, w1)
                | Inr cs \<Rightarrow> upload_loop c server_url file_path key received cs 0 w1)))"

subsection \<open>The chunk buffer and \<^verbatim>\<open>upload_buffered_files\<close>\<close>

definition insert_or_replace :: "chunk_record \<Rightarrow> world \<Rightarrow> world" where
  "insert_or_replace r w = w\<lparr>chunks := filter (\<lambda>x. cr_id x \<noteq> cr_id r) (chunks w) @ [r]\<rparr>"

definition delete_chunk :: "string \<Rightarrow> world \<Rightarrow> world" where
  "delete_chunk chunk_id w = w\<lparr>chunks := filter (\<lambda>x. cr_id x \<noteq> chunk_id) (chunks w)\<rparr>"

fun add_chunks :: "string \<Rightarrow> bytes list \<Rightarrow> int \<Rightarrow> world \<Rightarrow> int \<times> world" where
  "add_chunks file_path [] chunk_count w = (chunk_count, w)"
| "add_chunks file_path (chunk_data # rest) chunk_count w =
     add_chunks file_path rest (chunk_count + 1)
       (insert_or_replace
          \<lparr>cr_id = file_path @ ''-'' @ py_str chunk_count, file_name = file_path,
           chunk_index = chunk_count, data = chunk_data\<rparr> w)"

definition add_file :: "client \<Rightarrow> string \<Rightarrow> world \<Rightarrow> (exn + int) \<times> world" where
  "add_file c file_path w =
     (case local_files w file_path of
        None \<Rightarrow> (Inl (FileNotFoundError file_path), w)
      | Some content \<Rightarrow>
          (case file_chunks (chunk_size c) content of
             Inl e \<Rightarrow> (Inl e, w)
           | Inr cs \<Rightarrow> (case add_chunks file_path cs 0 w of (n, w') \<Rightarrow> (Inr n, w'))))"

text \<open>
  \<^verbatim>\<open>SELECT * FROM chunks ORDER BY file_name, chunk_index\<close> (strings compare bytewise),
  and the grouping of the rows into the dictionary \<open>file_groups\<close>, whose keys keep the
  order of their first insertion.
\<close>

definition select_all_ordered :: "world \<Rightarrow> chunk_record list" where
  "select_all_ordered w = sort_key (\<lambda>r. (file_name r, chunk_index r)) (chunks w)"

definition group_add ::
  "(string \<times> chunk_record list) list \<Rightarrow> chunk_record \<Rightarrow> (string \<times> chunk_record list) list" where
  "group_add file_groups r =
     (case map_of file_groups (file_name r) of
        None \<Rightarrow> file_groups @ [(file_name r, [r])]
      | Some g \<Rightarrow> AList.update (file_name r) (g @ [r]) file_groups)"

definition group_records :: "chunk_record list \<Rightarrow> (string \<times> chunk_record list) list" where
  "group_records all_records = foldl group_add [] all_records"

text \<open>Python's truth value of a JSON value.\<close>

definition truthy :: "json \<Rightarrow> bool" where
  "truthy v =
     (case v of
        JNull \<Rightarrow> False
      | JBool b \<Rightarrow> b
      | JInt i \<Rightarrow> i \<noteq> 0
      | JStr s \<Rightarrow> s \<noteq> []
      | JList xs \<Rightarrow> xs \<noteq> []
      | JObj kv \<Rightarrow> kv \<noteq> [])"

definition adopt_filename :: "response_data \<Rightarrow> json \<Rightarrow> json" where
  "adopt_filename response_data server_filename =
     (case response_data of
        Parsed kv \<Rightarrow>
          (case map_of kv ''actualFilename'' of
             Some v \<Rightarrow> if truthy v then v else server_filename
           | None \<Rightarrow> server_filename)
      | Message b \<Rightarrow> server_filename)"

fun upload_file_chunks ::
  "client \<Rightarrow> string \<Rightarrow> string \<Rightarrow> string \<Rightarrow> json set \<Rightarrow> json \<Rightarrow> chunk_record list \<Rightarrow> world
     \<Rightarrow> (exn + json) \<times> world" where
  "upload_file_chunks c server_url key fname received server_filename [] w =
     (Inr server_filename, w)"
| "upload_file_chunks c server_url key fname received server_filename (r # rest) w =
     (if py_in (chunk_index r) received then
        upload_file_chunks c server_url key fname received server_filename rest
          (delete_chunk (cr_id r) w)
      else
        (case upload_chunk_with_retry c server_url (data r) (chunk_index r) fname key w of
           (Inl e, w') \<Rightarrow> (Inl e, w')
         | (Inr response_data, w') \<Rightarrow>
             upload_file_chunks c server_url key fname received
               (adopt_filename response_data server_filename) rest
               (delete_chunk (cr_id r) w')))"

fun upload_files ::
  "client \<Rightarrow> string \<Rightarrow> string \<Rightarrow> (string \<times> chunk_record list) list \<Rightarrow> (string \<times> json) list
     \<Rightarrow> world \<Rightarrow> (exn + (string \<times> json) list) \<times> world" where
  "upload_files c server_url key [] upload_results w = (Inr upload_results, w)"
| "upload_files c server_url key ((fname, file_chunks_of) # file_groups) upload_results w =
     (let sorted_chunks = sort_key chunk_index file_chunks_of;
          server_filename = path_name fname
      in case get_received_chunks_client c server_url server_filename key w of
           (received, w1) \<Rightarrow>
             (case upload_file_chunks c server_url key fname received (JStr server_filename)
                     sorted_chunks w1 of
                (Inl e, w2) \<Rightarrow> (Inl e, w2)
              | (Inr name, w2) \<Rightarrow>
                  upload_files c server_url key file_groups
                    (AList.update fname name upload_results) w2))"

definition upload_buffered_files ::
  "client \<Rightarrow> string \<Rightarrow> world \<Rightarrow> (exn + (string \<times> json) list) \<times> world" where
  "upload_buffered_files c server_url w =
     (let key = get_api_key c;
          all_records = select_all_ordered w
      in if all_records = [] then (Inr [], w)
         else upload_files c server_url key (group_records all_records) [] w)"

text \<open>
  What a log of requests says about uploads: the file-name and chunk-index headers of
  its POST requests, in order. \<open>upload_plan\<close> lists the same two headers for every
  buffered chunk in the order in which \<^verbatim>\<open>upload_buffered_files\<close> walks through
  \<open>file_groups\<close>: file by file, the chunks of a file sorted by index.
\<close>

definition uploads_of :: "request list \<Rightarrow> (string \<times> string) list" where
  "uploads_of rqs =
     map (\<lambda>rq. (header_get (x_file_name rq) [], header_get (x_chunk_index rq) []))
       (filter (\<lambda>rq. rq_method rq = POST) rqs)"



definition repeat_each :: "nat list \<Rightarrow> 'a list \<Rightarrow> 'a list" where
  "repeat_each ms xs = concat (map (\<lambda>(m, x). replicate m x) (zip ms xs))"


text \<open>
  A server that accepts the key \<open>key\<close>, has no file-name generator and can open the
  target file of \<open>name\<close> for appending.
\<close>

definition serves :: "server \<Rightarrow> string \<Rightarrow> string \<Rightarrow> bool" where
  "serves s key name =
     (api_key s = key \<and> filename_generator s = None
      \<and> open_error s (os_path_join (output_dir s) name) = None)"

subsection \<open>Example data\<close>

definition example_server :: server where
  "example_server =
     \<lparr>api_key = ''k'', output_dir = ''out'', filename_generator = None,
      open_error = (\<lambda>p. None), files = Map.empty, received_chunks = []\<rparr>"

definition example_client :: client where
  "example_client =
     \<lparr>chunk_size = 2, max_retries = 3, initial_retry_delay = 1, client_api_key = ''k''\<rparr>"

definition example_url :: string where
  "example_url = ''http://localhost:3000/upload''"

definition example_world :: world where
  "example_world =
     \<lparr>srv = example_server, net = [], wire = [], slept = [], chunks = [],
      local_files = [''/tmp/a.txt'' \<mapsto> [1, 2, 3, 4, 5], ''/tmp/a&b.txt'' \<mapsto> [1, 2, 3, 4, 5],
                     ''/tmp/b.txt'' \<mapsto> [6, 7]]\<rparr>"

definition failing_world :: world where
  "failing_world =
     example_world\<lparr>net := [ConnectionError ''refused'', ResponseLost ''timed out'',
        Answered \<lparr>status_code = 503, content_type = ''text/plain'', body = Raw ''busy''\<rparr>]\<rparr>"

definition redirect_world :: world where
  "redirect_world =
     example_world\<lparr>net := [Answered \<lparr>status_code = 300, content_type = ''application/json'',
        body = JsonDoc (JObj [(''filename'', JStr ''a.txt''), (''receivedChunks'', JList [JInt 0])])\<rparr>]\<rparr>"

definition string_world :: world where
  "string_world =
     example_world\<lparr>net := [Answered \<lparr>status_code = 200, content_type = ''application/json'',
        body = JsonDoc (JObj [(''filename'', JStr ''a.txt''), (''receivedChunks'', JStr ''ab'')])\<rparr>]\<rparr>"


definition interrupting_net :: "net_event list" where
  "interrupting_net =
     [Deliver, Deliver, ConnectionError ''x'', ConnectionError ''y'', ConnectionError ''z'']"

definition interrupted_world :: "string \<Rightarrow> world" where
  "interrupted_world file_path =
     (snd (buffer_and_upload example_client file_path example_url
        (example_world\<lparr>net := interrupting_net\<rparr>)))\<lparr>wire := []\<rparr>"



definition example_request :: request where
  "example_request =
     \<lparr>rq_method = POST, rq_target = ''/upload'', authorization = Some ''Bearer k'',
      x_chunk_index = Some ''0'', x_file_name = Some ''dir/a.txt'',
      content_length = Some ''3'', rq_body = [1, 2, 3]\<rparr>"

section \<open>Properties\<close>

subsection \<open>Decimal strings\<close>

lemma is_digit_digit_char: "d < 10 \<Longrightarrow> is_digit (digit_char d)"
  by (simp add: is_digit_def digit_char_def)

lemma digit_val_digit_char: "d < 10 \<Longrightarrow> digit_val (digit_char d) = d"
  by (simp add: digit_val_def digit_char_def)

lemma str_nat_digits: "\<forall>c \<in> set (str_nat n). is_digit c"
proof (induction n rule: str_nat.induct)
  case (1 n)
  show ?case
  proof (cases "n < 10")
    case True
    then show ?thesis by (subst str_nat.simps) (simp add: is_digit_digit_char)
  next
    case False
    with 1 show ?thesis by (subst str_nat.simps) (simp add: is_digit_digit_char)
  qed
qed

lemma str_nat_nonempty: "str_nat n \<noteq> []"
  by (subst str_nat.simps) simp

lemma grouped_digits: "s \<noteq> [] \<Longrightarrow> \<forall>c \<in> set s. is_digit c \<Longrightarrow> grouped s"
proof (induction s rule: grouped.induct)
  case (3 c d r)
  have "d \<noteq> CHR ''_''" using "3.prems" by (auto simp: is_digit_def)
  with 3 show ?case by simp
qed simp_all

lemma filter_digits: "\<forall>c \<in> set s. is_digit c \<Longrightarrow> filter (\<lambda>c. c \<noteq> CHR ''_'') s = s"
  by (induction s) (auto simp: is_digit_def)

lemma digits_value_str_nat: "digits_value (str_nat n) = n"
proof (induction n rule: str_nat.induct)
  case (1 n)
  show ?case
  proof (cases "n < 10")
    case True
    have u: "digit_char n \<noteq> CHR ''_''"
      using is_digit_digit_char[OF True] by (auto simp: is_digit_def)
    show ?thesis
      using True u by (subst str_nat.simps) (simp add: digits_value_def digit_val_digit_char)
  next
    case False
    have f: "filter (\<lambda>c. c \<noteq> CHR ''_'') (str_nat (n div 10)) = str_nat (n div 10)"
      using filter_digits str_nat_digits by blast
    have u: "digit_char (n mod 10) \<noteq> CHR ''_''"
      using is_digit_digit_char[of "n mod 10"] by (auto simp: is_digit_def)
    from False 1 have ih: "digits_value (str_nat (n div 10)) = n div 10" by simp
    show ?thesis
      using False ih u
      by (subst str_nat.simps) (simp add: digits_value_def f digit_val_digit_char)
  qed
qed

lemma dropWhile_hd: "s \<noteq> [] \<Longrightarrow> \<not> P (hd s) \<Longrightarrow> dropWhile P s = s"
  by (cases s) auto

lemma strip_id: "s \<noteq> [] \<Longrightarrow> \<not> is_space (hd s) \<Longrightarrow> \<not> is_space (last s) \<Longrightarrow> strip s = s"
  unfolding strip_def by (simp add: dropWhile_hd hd_rev)

lemma digit_not_space: "is_digit c \<Longrightarrow> \<not> is_space c"
  by (auto simp: is_digit_def is_space_def)

lemma strip_str_nat: "strip (str_nat n) = str_nat n"
proof -
  have "hd (str_nat n) \<in> set (str_nat n)" "last (str_nat n) \<in> set (str_nat n)"
    using str_nat_nonempty by simp_all
  then show ?thesis
    using str_nat_digits digit_not_space strip_id str_nat_nonempty by blast
qed

lemma strip_minus: "strip (CHR ''-'' # str_nat n) = CHR ''-'' # str_nat n"
proof -
  have "last (str_nat n) \<in> set (str_nat n)"
    using str_nat_nonempty by simp
  then have "\<not> is_space (last (str_nat n))"
    using str_nat_digits digit_not_space by blast
  then show ?thesis
    using str_nat_nonempty by (intro strip_id) (simp_all add: is_space_def)
qed

lemma grouped_str_nat: "grouped (str_nat n)"
  using grouped_digits str_nat_nonempty str_nat_digits by blast

lemma hd_str_nat: "hd (str_nat n) \<noteq> CHR ''-'' \<and> hd (str_nat n) \<noteq> CHR ''+''"
proof -
  have "hd (str_nat n) \<in> set (str_nat n)" using str_nat_nonempty by simp
  then have "is_digit (hd (str_nat n))" using str_nat_digits by blast
  then show ?thesis by (auto simp: is_digit_def)
qed

text \<open>\<open>int(str(i))\<close> is \<open>i\<close>: the chunk index survives its header.\<close>

lemma py_int_py_str: "py_int (py_str i) = Some i"
proof (cases "i < 0")
  case True
  then show ?thesis
    by (simp add: py_int_def py_str_def strip_minus grouped_str_nat digits_value_str_nat)
next
  case False
  obtain c r where cr: "str_nat (nat i) = c # r"
    using str_nat_nonempty by (cases "str_nat (nat i)") auto
  have "c \<noteq> CHR ''-''" "c \<noteq> CHR ''+''"
    using hd_str_nat[of "nat i"] cr by simp_all
  moreover have "grouped (c # r)" "digits_value (c # r) = nat i"
    using grouped_str_nat[of "nat i"] digits_value_str_nat[of "nat i"] cr by simp_all
  moreover have "strip (str_nat (nat i)) = c # r"
    using strip_str_nat[of "nat i"] cr by simp
  ultimately show ?thesis
    using False by (simp add: py_int_def py_str_def)
qed

lemma int_of_header_py_str: "int_of_header (py_str i) = Inr i"
  by (simp add: int_of_header_def py_int_py_str)

lemma py_str_0: "py_str 0 = ''0''"
  by code_simp

lemma py_str_3: "py_str 3 = ''3''"
  by code_simp

subsection \<open>The chunk tracker\<close>

lemma is_chunk_received_iff:
  "is_chunk_received s f i \<longleftrightarrow> (f, i) \<in> set (received_chunks s)"
  by (force simp: is_chunk_received_def filter_empty_conv)

lemma get_received_chunks_iff:
  "i \<in> get_received_chunks s f \<longleftrightarrow> (f, i) \<in> set (received_chunks s)"
  by (force simp: get_received_chunks_def)

lemma mark_chunk_received_rows:
  "set (received_chunks (mark_chunk_received s f i)) = insert (f, i) (set (received_chunks s))"
  by (auto simp: mark_chunk_received_def)





lemma mark_chunk_received_fields:
  "api_key (mark_chunk_received s f i) = api_key s"
  "output_dir (mark_chunk_received s f i) = output_dir s"
  "filename_generator (mark_chunk_received s f i) = filename_generator s"
  "open_error (mark_chunk_received s f i) = open_error s"
  "files (mark_chunk_received s f i) = files s"
  by (simp_all add: mark_chunk_received_def)

lemma append_file_fields:
  "api_key (append_file s p d) = api_key s"
  "output_dir (append_file s p d) = output_dir s"
  "filename_generator (append_file s p d) = filename_generator s"
  "open_error (append_file s p d) = open_error s"
  "received_chunks (append_file s p d) = received_chunks s"
  "files (append_file s p d) = (files s)(p \<mapsto> file_content s p @ d)"
  by (simp_all add: append_file_def)



subsection \<open>The upload handler\<close>

text \<open>
  C6. A chunk delivery whose Authorization header is missing, or is not \<open>Bearer\<close>
  followed by the server's key, is answered with status 401; the handler has read nothing
  of the request body by then, and the server (its files and its table of received
  chunks) is as before. The status query rejects such a request in the same way.
\<close>

theorem unauthenticated_rejected_first:
  assumes "\<not> authenticated s rq"
  shows "handle_upload s rq =
           \<lparr>reply = Some (send_error 401 ''Invalid or missing API key''), state = s,
            unread = rq_body rq\<rparr>
       \<and> handle_status s rq =
           \<lparr>reply = Some (send_error 401 ''Invalid or missing API key''), state = s,
            unread = rq_body rq\<rparr>
       \<and> status_code (send_error 401 ''Invalid or missing API key'') = 401
       \<and> files (state (handle_upload s rq)) = files s
       \<and> received_chunks (state (handle_upload s rq)) = received_chunks s"
  using assms
  by (auto simp: authenticated_def handle_upload_def handle_status_def Let_def
      send_error_def send_json_response_def)

theorem unauthenticated_rejected_first_witness:
  "\<not> authenticated example_server (example_request\<lparr>authorization := Some ''Bearer wrong''\<rparr>)
   \<and> handle_upload example_server (example_request\<lparr>authorization := Some ''Bearer wrong''\<rparr>) =
       \<lparr>reply = Some (send_error 401 ''Invalid or missing API key''), state = example_server,
        unread = [1, 2, 3]\<rparr>
   \<and> files (state (handle_upload example_server
         (example_request\<lparr>authorization := Some ''Bearer wrong''\<rparr>))) = files example_server
   \<and> received_chunks (state (handle_upload example_server
         (example_request\<lparr>authorization := Some ''Bearer wrong''\<rparr>)))
       = received_chunks example_server"
proof -
  let ?rq = "example_request\<lparr>authorization := Some ''Bearer wrong''\<rparr>"
  have a: "\<not> authenticated example_server ?rq"
    by (simp add: authenticated_def example_server_def example_request_def header_get_def)
  have b: "rq_body ?rq = [1, 2, 3]"
    by (simp add: example_request_def)
  show ?thesis
    using unauthenticated_rejected_first [OF a] a b by simp
qed

lemma rfile_read_all: "rfile_read (int (length b)) b = Inr (b, [])"
  by (simp add: rfile_read_def)

lemma handle_upload_authenticated:
  assumes "authenticated s rq"
    and "content_length rq = Some (py_str (int (length (rq_body rq))))"
    and "x_chunk_index rq = Some (py_str i)"
    and "resolve_filename s (header_get (x_file_name rq) ''uploaded_file.txt'') (py_str i) = Inr f"
    and "open_error s (os_path_join (output_dir s) f) = None"
    and "sqlite_integer i"
  shows "handle_upload s rq =
     (if is_chunk_received s f i then
        \<lparr>reply = Some (send_json_response 200
            (already_received_body f i (header_get (x_file_name rq) ''uploaded_file.txt''))),
         state = s, unread = rq_body rq\<rparr>
      else
        \<lparr>reply = Some (send_json_response 200
            (chunk_received_body f i (header_get (x_file_name rq) ''uploaded_file.txt''))),
         state = mark_chunk_received
                   (append_file s (os_path_join (output_dir s) f) (rq_body rq)) f i,
         unread = []\<rparr>)"
  using assms
  by (simp add: handle_upload_def authenticated_def upload_try_def Let_def header_get_def
      int_of_header_py_str rfile_read_all)




text \<open>
  C9. A delivery without the chunk-index header is handled exactly as one whose header
  is \<open>0\<close>, and a delivery without the file-name header exactly as one that names
  \<open>uploaded_file.txt\<close>. An authenticated delivery that omits both (default naming, the
  target file can be opened, nothing recorded yet) is not rejected: it is answered with
  status 200, its body is appended to \<open>uploaded_file.txt\<close> in the output directory and
  chunk 0 of that file is recorded.
\<close>

theorem missing_headers_take_defaults:
  "handle_upload s (rq\<lparr>x_chunk_index := None\<rparr>) = handle_upload s (rq\<lparr>x_chunk_index := Some ''0''\<rparr>)
   \<and> handle_upload s (rq\<lparr>x_file_name := None\<rparr>)
       = handle_upload s (rq\<lparr>x_file_name := Some ''uploaded_file.txt''\<rparr>)
   \<and> (authenticated s rq \<and> x_chunk_index rq = None \<and> x_file_name rq = None
        \<and> filename_generator s = None
        \<and> content_length rq = Some (py_str (int (length (rq_body rq))))
        \<and> open_error s (os_path_join (output_dir s) ''uploaded_file.txt'') = None
        \<and> \<not> is_chunk_received s ''uploaded_file.txt'' 0
      \<longrightarrow> handle_upload s rq =
            \<lparr>reply = Some (send_json_response 200
               (chunk_received_body ''uploaded_file.txt'' 0 ''uploaded_file.txt'')),
             state = mark_chunk_received
               (append_file s (os_path_join (output_dir s) ''uploaded_file.txt'') (rq_body rq))
               ''uploaded_file.txt'' 0,
             unread = []\<rparr>)"
proof -
  have e1: "handle_upload s (rq\<lparr>x_chunk_index := None\<rparr>)
      = handle_upload s (rq\<lparr>x_chunk_index := Some ''0''\<rparr>)"
    by (simp add: handle_upload_def header_get_def Let_def cong: sum.case_cong option.case_cong)
  have e2: "handle_upload s (rq\<lparr>x_file_name := None\<rparr>)
      = handle_upload s (rq\<lparr>x_file_name := Some ''uploaded_file.txt''\<rparr>)"
    by (simp add: handle_upload_def header_get_def Let_def cong: sum.case_cong option.case_cong)
  have e3: "handle_upload s rq =
            \<lparr>reply = Some (send_json_response 200
               (chunk_received_body ''uploaded_file.txt'' 0 ''uploaded_file.txt'')),
             state = mark_chunk_received
               (append_file s (os_path_join (output_dir s) ''uploaded_file.txt'') (rq_body rq))
               ''uploaded_file.txt'' 0,
             unread = []\<rparr>"
    if h: "authenticated s rq" "x_chunk_index rq = None" "x_file_name rq = None"
      "filename_generator s = None"
      "content_length rq = Some (py_str (int (length (rq_body rq))))"
      "open_error s (os_path_join (output_dir s) ''uploaded_file.txt'') = None"
      "\<not> is_chunk_received s ''uploaded_file.txt'' 0"
  proof -
    let ?rq = "rq\<lparr>x_chunk_index := Some (py_str 0)\<rparr>"
    have "rq = rq\<lparr>x_chunk_index := None\<rparr>" using h(2) by simp
    then have "handle_upload s rq = handle_upload s ?rq"
      using e1 by (simp add: py_str_0)
    moreover have "handle_upload s ?rq =
            \<lparr>reply = Some (send_json_response 200
               (chunk_received_body ''uploaded_file.txt'' 0 ''uploaded_file.txt'')),
             state = mark_chunk_received
               (append_file s (os_path_join (output_dir s) ''uploaded_file.txt'') (rq_body rq))
               ''uploaded_file.txt'' 0,
             unread = []\<rparr>"
      using handle_upload_authenticated [of s ?rq 0 "''uploaded_file.txt''"] h
      by (simp add: authenticated_def resolve_filename_def header_get_def basename_def
          sqlite_integer_def)
    ultimately show ?thesis by simp
  qed
  show ?thesis using e1 e2 e3 by blast
qed

theorem missing_headers_take_defaults_witness:
  "authenticated example_server (example_request\<lparr>x_chunk_index := None, x_file_name := None\<rparr>)
   \<and> open_error example_server (os_path_join (output_dir example_server) ''uploaded_file.txt'') = None
   \<and> \<not> is_chunk_received example_server ''uploaded_file.txt'' 0
   \<and> handle_upload example_server (example_request\<lparr>x_chunk_index := None, x_file_name := None\<rparr>) =
        \<lparr>reply = Some (send_json_response 200
               (chunk_received_body ''uploaded_file.txt'' 0 ''uploaded_file.txt'')),
         state = mark_chunk_received
               (append_file example_server ''out/uploaded_file.txt'' [1, 2, 3])
               ''uploaded_file.txt'' 0,
         unread = []\<rparr>"
proof -
  let ?rq = "example_request\<lparr>x_chunk_index := None, x_file_name := None\<rparr>"
  have h: "authenticated example_server ?rq" "x_chunk_index ?rq = None" "x_file_name ?rq = None"
    "filename_generator example_server = None"
    "content_length ?rq = Some (py_str (int (length (rq_body ?rq))))"
    "open_error example_server (os_path_join (output_dir example_server) ''uploaded_file.txt'') = None"
    "\<not> is_chunk_received example_server ''uploaded_file.txt'' 0"
    "os_path_join (output_dir example_server) ''uploaded_file.txt'' = ''out/uploaded_file.txt''"
    "rq_body ?rq = [1, 2, 3]"
    by (simp_all add: authenticated_def example_server_def example_request_def header_get_def
        py_str_3 is_chunk_received_def os_path_join_def suffix_to_prefix)
  have r: "handle_upload example_server ?rq =
        \<lparr>reply = Some (send_json_response 200
               (chunk_received_body ''uploaded_file.txt'' 0 ''uploaded_file.txt'')),
         state = mark_chunk_received
               (append_file example_server
                  (os_path_join (output_dir example_server) ''uploaded_file.txt'') (rq_body ?rq))
               ''uploaded_file.txt'' 0,
         unread = []\<rparr>"
    using missing_headers_take_defaults [of example_server ?rq] h(1-7) by blast
  show ?thesis
    using h(1,6,7) r unfolding h(8) h(9) by blast
qed


subsection \<open>The transport and the retry loop\<close>

lemma is_request_exception_simps [simp]:
  "is_request_exception (RequestException i f cs)"
  "is_request_exception (RequestsError cs)"
  "\<not> is_request_exception (ValueError m)"
  "\<not> is_request_exception (TypeError m)"
  "\<not> is_request_exception (AttributeError m)"
  "\<not> is_request_exception (FileNotFoundError m)"
  by (simp_all add: is_request_exception_def)

lemma send_request_logs:
  "wire (snd (send_request rq w)) = wire w @ [rq]"
  "slept (snd (send_request rq w)) = slept w"
  "net (snd (send_request rq w)) = drop 1 (net w)"
  "chunks (snd (send_request rq w)) = chunks w"
  "local_files (snd (send_request rq w)) = local_files w"
  by (simp_all add: send_request_def Let_def split: net_event.splits list.splits option.splits)

lemma upload_chunk_world:
  "snd (upload_chunk c server_url chunk_data index fname key w)
     = snd (requests_post server_url (bearer c key) (py_str index) fname chunk_data w)"
  by (simp add: upload_chunk_def split: prod.splits)




lemma upload_chunk_RequestException:
  "fst (upload_chunk c url chunk_data index fname key w) = Inl (RequestException i f e)
     \<Longrightarrow> i = index \<and> f = fname"
  by (auto simp: upload_chunk_def upload_result_def
      split: prod.splits http_outcome.splits body.splits json.splits if_splits)
















subsection \<open>The status query of the client\<close>

lemma status_try_failure: "status_failure out \<Longrightarrow> (case status_try out of Inl e \<Rightarrow> {} | Inr S \<Rightarrow> S) = {}"
  by (auto simp: status_failure_def status_try_def malformed_status_def raise_for_status_def
      py_set_def split: http_outcome.splits body.splits json.splits option.splits if_splits)

lemma get_received_chunks_client_alt:
  "get_received_chunks_client c server_url filename key w =
     ((case status_try (fst (requests_get (status_url_of server_url filename) (''Bearer '' @ key) w)) of
         Inl e \<Rightarrow> {} | Inr S \<Rightarrow> S),
      snd (requests_get (status_url_of server_url filename) (''Bearer '' @ key) w))"
  by (simp add: get_received_chunks_client_def split: prod.splits sum.splits)

text \<open>
  C7, as amended. \<^verbatim>\<open>_get_received_chunks\<close> returns a set in every case and raises
  nothing: every exception of its \<^verbatim>\<open>try\<close> block becomes the empty set. It returns the
  empty set when the query gets no response, a 4xx or 5xx response, a body that is not
  JSON, or a JSON body without a usable \<open>receivedChunks\<close>; no index is then skipped,
  and \<^verbatim>\<open>buffer_and_upload\<close> goes on with the upload loop from chunk 0 with the empty
  set. The only effect of the lookup on the world is its one request.
\<close>

theorem status_failure_degrades:
  "(status_failure (fst (requests_get (status_url_of server_url filename) (''Bearer '' @ key) w))
      \<longrightarrow> fst (get_received_chunks_client c server_url filename key w) = {}
        \<and> \<not> py_in i (fst (get_received_chunks_client c server_url filename key w)))
   \<and> (status_try (fst (requests_get (status_url_of server_url filename) (''Bearer '' @ key) w)) = Inl e
      \<longrightarrow> fst (get_received_chunks_client c server_url filename key w) = {})
   \<and> snd (get_received_chunks_client c server_url filename key w)
       = snd (requests_get (status_url_of server_url filename) (''Bearer '' @ key) w)
   \<and> (local_files w file_path = Some content
        \<and> status_failure (fst (requests_get (status_url_of server_url (path_name file_path))
              (''Bearer '' @ get_api_key c) w))
      \<longrightarrow> buffer_and_upload c file_path server_url w =
           (case file_chunks (chunk_size c) content of
              Inl e' \<Rightarrow> (Inl e', snd (requests_get (status_url_of server_url (path_name file_path))
                                 (''Bearer '' @ get_api_key c) w))
            | Inr cs \<Rightarrow> upload_loop c server_url file_path (get_api_key c) {} cs 0
                (snd (requests_get (status_url_of server_url (path_name file_path))
                                 (''Bearer '' @ get_api_key c) w))))"
proof -
  have a: "fst (get_received_chunks_client c server_url filename key w) = {}
        \<and> \<not> py_in i (fst (get_received_chunks_client c server_url filename key w))"
    if "status_failure (fst (requests_get (status_url_of server_url filename) (''Bearer '' @ key) w))"
    using status_try_failure [OF that] by (simp add: get_received_chunks_client_alt py_in_def)
  have b: "fst (get_received_chunks_client c server_url filename key w) = {}"
    if "status_try (fst (requests_get (status_url_of server_url filename) (''Bearer '' @ key) w)) = Inl e"
    using that by (simp add: get_received_chunks_client_alt)
  have c: "snd (get_received_chunks_client c server_url filename key w)
       = snd (requests_get (status_url_of server_url filename) (''Bearer '' @ key) w)"
    by (simp add: get_received_chunks_client_alt)
  have d: "buffer_and_upload c file_path server_url w =
           (case file_chunks (chunk_size c) content of
              Inl e' \<Rightarrow> (Inl e', snd (requests_get (status_url_of server_url (path_name file_path))
                                 (''Bearer '' @ get_api_key c) w))
            | Inr cs \<Rightarrow> upload_loop c server_url file_path (get_api_key c) {} cs 0
                (snd (requests_get (status_url_of server_url (path_name file_path))
                                 (''Bearer '' @ get_api_key c) w)))"
    if "local_files w file_path = Some content"
      "status_failure (fst (requests_get (status_url_of server_url (path_name file_path))
              (''Bearer '' @ get_api_key c) w))"
    using that(1) status_try_failure [OF that(2)]
    by (simp add: buffer_and_upload_def Let_def get_received_chunks_client_alt
        split: sum.splits)
  show ?thesis using a b c d by blast
qed

lemma example_status_url:
  "url_target (status_url_of example_url ''a.txt'') = Some ''/upload/status?filename=a.txt''"
  by (simp add: status_url_of_def base_url_of_def example_url_def url_target_def target_of_def)

text \<open>
  The claim as stated fails for a response that is not 2xx but below 400 (only 4xx and
  5xx make \<open>raise_for_status\<close> raise): its body is read like that of a 200 response.
  It also fails for a malformed body whose \<open>receivedChunks\<close> is a string: \<open>set\<close> of it
  is the set of its characters.
\<close>

theorem status_failure_degrades_counterexample:
  "fst (get_received_chunks_client example_client example_url ''a.txt'' ''k'' redirect_world)
     = {JInt 0}
   \<and> py_in 0 (fst (get_received_chunks_client example_client example_url ''a.txt'' ''k'' redirect_world))
   \<and> fst (get_received_chunks_client example_client example_url ''a.txt'' ''k'' string_world)
     = {JStr ''a'', JStr ''b''}"
  by (simp add: get_received_chunks_client_alt requests_get_def example_status_url send_request_def
      redirect_world_def string_world_def example_world_def status_try_def raise_for_status_def
      py_set_def hashable_def py_in_def)

theorem status_failure_degrades_witness:
  "status_failure (fst (requests_get (status_url_of example_url ''a.txt'') (''Bearer '' @ ''k'')
      failing_world))
   \<and> fst (get_received_chunks_client example_client example_url ''a.txt'' ''k'' failing_world) = {}
   \<and> \<not> py_in 0 (fst (get_received_chunks_client example_client example_url ''a.txt'' ''k''
        failing_world))"
proof -
  have f: "status_failure (fst (requests_get (status_url_of example_url ''a.txt'')
      (''Bearer '' @ ''k'') failing_world))"
    by (simp add: requests_get_def example_status_url send_request_def failing_world_def
        status_failure_def)
  show ?thesis
    using status_failure_degrades [of example_url "''a.txt''" "''k''" failing_world example_client 0] f
    by blast
qed

subsection \<open>Buffered uploads\<close>

text \<open>
  C10. With no row in the table of buffered chunks, \<^verbatim>\<open>upload_buffered_files\<close>
  returns the empty dictionary and leaves the world as it is: no request has been sent
  (neither a delivery nor a status query) and the server is untouched.
\<close>

theorem empty_buffer_no_activity:
  assumes "chunks w = []"
  shows "upload_buffered_files c server_url w = (Inr [], w)
       \<and> wire (snd (upload_buffered_files c server_url w)) = wire w
       \<and> srv (snd (upload_buffered_files c server_url w)) = srv w"
  using assms by (simp add: upload_buffered_files_def select_all_ordered_def)

theorem empty_buffer_no_activity_witness:
  "chunks example_world = []
   \<and> upload_buffered_files example_client example_url example_world = (Inr [], example_world)
   \<and> wire (snd (upload_buffered_files example_client example_url example_world)) = []"
proof -
  have e: "chunks example_world = []" "wire example_world = []"
    by (simp_all add: example_world_def)
  show ?thesis
    using empty_buffer_no_activity [OF e(1), of example_client example_url] e by simp
qed

subsection \<open>The order of buffered uploads\<close>

lemma uploads_of_append: "uploads_of (xs @ ys) = uploads_of xs @ uploads_of ys"
  by (simp add: uploads_of_def)

lemma uploads_of_post:
  "uploads_of [post_request tgt auth ih nh payload] = [(nh, ih)]"
  by (simp add: uploads_of_def post_request_def header_get_def)

lemma uploads_of_get: "uploads_of [get_request tgt auth] = []"
  by (simp add: uploads_of_def get_request_def)

lemma repeat_each_Nil [simp]: "repeat_each [] xs = []" "repeat_each ms [] = []"
  by (simp_all add: repeat_each_def)

lemma repeat_each_Cons [simp]:
  "repeat_each (m # ms) (x # xs) = replicate m x @ repeat_each ms xs"
  by (simp add: repeat_each_def)


lemma repeat_each_zero: "repeat_each (replicate n 0) xs = []"
  by (induction n arbitrary: xs) (case_tac xs; simp)+


lemma upload_chunk_chunks:
  "chunks (snd (upload_chunk c url chunk_data index fname key w)) = chunks w"
  by (cases "url_target url")
     (simp_all add: upload_chunk_world requests_post_def send_request_logs)

lemma py_sleep_fields:
  "py_sleep d w = Inr w' \<Longrightarrow> wire w' = wire w \<and> chunks w' = chunks w"
  by (auto simp: py_sleep_def split: if_splits)


lemma retry_loop_chunks:
  "chunks (snd (retry_loop c url chunk_data index fname key le attempt n w)) = chunks w"
proof (induction n arbitrary: le attempt w)
  case 0
  then show ?case by (simp split: option.splits)
next
  case (Suc n)
  obtain res w' where u: "upload_chunk c url chunk_data index fname key w = (res, w')"
    by (cases "upload_chunk c url chunk_data index fname key w")
  have w': "chunks w' = chunks w"
    using upload_chunk_chunks [of c url chunk_data index fname key w] u by simp
  show ?case
    using u w' Suc.IH py_sleep_fields
    by (auto split: sum.splits)
qed


lemma upload_chunk_with_retry_chunks:
  "chunks (snd (upload_chunk_with_retry c url chunk_data index fname key w)) = chunks w"
  unfolding upload_chunk_with_retry_def by (rule retry_loop_chunks)


lemma repeat_each_zero_tail:
  "repeat_each (m # replicate n 0) (x # xs) = replicate m x"
  by (simp add: repeat_each_zero)

lemma delete_chunk_wire [simp]: "wire (delete_chunk i w) = wire w"
  by (simp add: delete_chunk_def)
















subsection \<open>Resuming an interrupted upload\<close>

text \<open>
  A resumed upload over a working connection. When the status query reaches the server
  with the file name intact (\<open>query_filename\<close> of the request target is the name) and
  the server has recorded the chunks \<open>0, \<dots>, k - 1\<close> of the file,
  \<^verbatim>\<open>buffer_and_upload\<close> skips those chunks, sends each of the remaining chunks once
  and in order, and the server appends them to the target file and records them.
\<close>

lemma serves_update:
  "serves s key name \<Longrightarrow>
     serves (mark_chunk_received (append_file s p d) f i) key name"
  by (simp add: serves_def mark_chunk_received_fields append_file_fields)

lemma send_request_deliver:
  assumes "net w = []" and "reply (serve (srv w) rq) = Some r"
  shows "send_request rq w
      = (Returned r, w\<lparr>net := [], wire := wire w @ [rq], srv := state (serve (srv w) rq)\<rparr>)"
  using assms by (simp add: send_request_def Let_def)

lemma upload_delivered:
  assumes R: "1 \<le> max_retries c" and url: "url_target url = Some ''/upload''"
    and net: "net w = []" and s: "serves (srv w) (get_api_key c) name"
    and name: "basename file_path = name"
    and new: "\<not> is_chunk_received (srv w) name idx" and i: "sqlite_integer idx"
  shows "upload_chunk_with_retry c url chunk_data idx file_path (get_api_key c) w =
     (Inr (Parsed [(''message'', JStr ''Chunk received''), (''actualFilename'', JStr name),
                   (''chunkIndex'', JInt idx), (''clientFilename'', JStr file_path)]),
      w\<lparr>net := [],
        wire := wire w @ [post_request ''/upload'' (bearer c (get_api_key c)) (py_str idx)
                           file_path chunk_data],
        srv := mark_chunk_received
                 (append_file (srv w) (os_path_join (output_dir (srv w)) name) chunk_data)
                 name idx\<rparr>)"
proof -
  let ?rq = "post_request ''/upload'' (bearer c (get_api_key c)) (py_str idx) file_path chunk_data"
  let ?s' = "mark_chunk_received
               (append_file (srv w) (os_path_join (output_dir (srv w)) name) chunk_data) name idx"
  have b: "bearer c (get_api_key c) = ''Bearer '' @ get_api_key c"
    by (simp add: bearer_def)
  have h: "handle_upload (srv w) ?rq =
      \<lparr>reply = Some (send_json_response 200 (chunk_received_body name idx file_path)),
       state = ?s', unread = []\<rparr>"
    using handle_upload_authenticated [of "srv w" ?rq idx name] s name new i
    by (simp add: post_request_def authenticated_def header_get_def serves_def b
        resolve_filename_def)
  have sv: "serve (srv w) ?rq = handle_upload (srv w) ?rq"
    by (simp add: serve_def post_request_def)
  have sr: "send_request ?rq w =
      (Returned (send_json_response 200 (chunk_received_body name idx file_path)),
       w\<lparr>net := [], wire := wire w @ [?rq], srv := ?s'\<rparr>)"
    using send_request_deliver [OF net, of ?rq] by (simp add: sv h)
  have u: "upload_chunk c url chunk_data idx file_path (get_api_key c) w =
     (Inr (Parsed [(''message'', JStr ''Chunk received''), (''actualFilename'', JStr name),
                   (''chunkIndex'', JInt idx), (''clientFilename'', JStr file_path)]),
      w\<lparr>net := [], wire := wire w @ [?rq], srv := ?s'\<rparr>)"
    by (simp add: upload_chunk_def requests_post_def url sr upload_result_def
        send_json_response_def raise_for_status_def chunk_received_body_def)
  obtain n where n: "nat (max_retries c) = Suc n"
    using R by (cases "nat (max_retries c)") auto
  show ?thesis
    unfolding upload_chunk_with_retry_def n by (simp add: u)
qed

lemma upload_loop_skip:
  "(\<forall>j. idx \<le> j \<and> j < idx + int (length xs) \<longrightarrow> py_in j received) \<Longrightarrow>
     upload_loop c url file_path key received (xs @ ys) idx w
       = upload_loop c url file_path key received ys (idx + int (length xs)) w"
proof (induction xs arbitrary: idx)
  case Nil
  then show ?case by simp
next
  case (Cons x xs)
  have "py_in idx received" using Cons.prems by simp
  moreover have "\<forall>j. idx + 1 \<le> j \<and> j < idx + 1 + int (length xs) \<longrightarrow> py_in j received"
    using Cons.prems by simp
  ultimately show ?case
    using Cons.IH [of "idx + 1"] by (simp add: add.assoc)
qed

lemma serves_output_dir:
  "output_dir (mark_chunk_received (append_file s p d) f i) = output_dir s"
  by (simp add: mark_chunk_received_fields append_file_fields)

lemma upload_loop_delivers:
  assumes R: "1 \<le> max_retries c" and url: "url_target url = Some ''/upload''"
    and name: "basename file_path = name"
  shows "net w = [] \<Longrightarrow> serves (srv w) (get_api_key c) name \<Longrightarrow>
     (\<forall>j. idx \<le> j \<longrightarrow> \<not> is_chunk_received (srv w) name j) \<Longrightarrow>
     (\<forall>j. idx \<le> j \<longrightarrow> \<not> py_in j received) \<Longrightarrow>
     - (2 ^ 63) \<le> idx \<Longrightarrow> idx + int (length ys) \<le> 2 ^ 63 \<Longrightarrow>
     fst (upload_loop c url file_path (get_api_key c) received ys idx w) = Inr ()
     \<and> (\<exists>xs. wire (snd (upload_loop c url file_path (get_api_key c) received ys idx w)) = wire w @ xs
           \<and> uploads_of xs = map (\<lambda>n. (file_path, py_str (idx + int n))) [0..<length ys])
     \<and> file_content (srv (snd (upload_loop c url file_path (get_api_key c) received ys idx w)))
           (os_path_join (output_dir (srv w)) name)
         = file_content (srv w) (os_path_join (output_dir (srv w)) name) @ concat ys
     \<and> set (received_chunks (srv (snd (upload_loop c url file_path (get_api_key c) received ys idx w))))
         = set (received_chunks (srv w)) \<union> (\<lambda>n. (name, idx + int n)) ` {0..<length ys}"
proof (induction ys arbitrary: idx w)
  case Nil
  have "wire w = wire w @ []" "uploads_of [] = []" by (simp_all add: uploads_of_def)
  then show ?case by simp
next
  case (Cons y ys)
  let ?path = "os_path_join (output_dir (srv w)) name"
  let ?rq = "post_request ''/upload'' (bearer c (get_api_key c)) (py_str idx) file_path y"
  let ?s' = "mark_chunk_received (append_file (srv w) ?path y) name idx"
  let ?w' = "w\<lparr>net := [], wire := wire w @ [?rq], srv := ?s'\<rparr>"
  have new: "\<not> is_chunk_received (srv w) name idx" using Cons.prems(3) by simp
  have sq: "sqlite_integer idx" using Cons.prems(5,6) by (simp add: sqlite_integer_def)
  have np: "\<not> py_in idx received" using Cons.prems(4) by simp
  note up = upload_delivered [OF R url Cons.prems(1,2) name new sq, of y]
  have step: "upload_loop c url file_path (get_api_key c) received (y # ys) idx w
      = upload_loop c url file_path (get_api_key c) received ys (idx + 1) ?w'"
    using np by (simp add: up)
  have p1: "net ?w' = []" by simp
  have p2: "serves (srv ?w') (get_api_key c) name"
    using Cons.prems(2) by (simp add: serves_update)
  have p3: "\<forall>j. idx + 1 \<le> j \<longrightarrow> \<not> is_chunk_received (srv ?w') name j"
    using Cons.prems(3)
    by (auto simp: is_chunk_received_iff mark_chunk_received_rows append_file_fields)
  have p4: "\<forall>j. idx + 1 \<le> j \<longrightarrow> \<not> py_in j received" using Cons.prems(4) by simp
  have p5: "- (2 ^ 63) \<le> idx + 1" "idx + 1 + int (length ys) \<le> 2 ^ 63"
    using Cons.prems(5,6) by simp_all
  note ih = Cons.IH [OF p1 p2 p3 p4 p5]
  have od: "output_dir (srv ?w') = output_dir (srv w)"
    by (simp add: serves_output_dir)
  obtain xs where xs: "wire (snd (upload_loop c url file_path (get_api_key c) received ys (idx + 1) ?w'))
        = wire ?w' @ xs"
      "uploads_of xs = map (\<lambda>n. (file_path, py_str (idx + 1 + int n))) [0..<length ys]"
    using ih by blast
  have a: "fst (upload_loop c url file_path (get_api_key c) received (y # ys) idx w) = Inr ()"
    unfolding step using ih by simp
  have shift: "map (\<lambda>n. (file_path, py_str (idx + int n))) [0..<length (y # ys)]
      = (file_path, py_str idx) # map (\<lambda>n. (file_path, py_str (idx + 1 + int n))) [0..<length ys]"
  proof -
    have "[0..<Suc (length ys)] = 0 # map Suc [0..<length ys]"
      by (simp only: upt_conv_Cons [OF zero_less_Suc] map_Suc_upt)
    then have l: "[0..<length (y # ys)] = 0 # map Suc [0..<length ys]"
      by simp
    show ?thesis unfolding l by (simp add: ac_simps)
  qed
  have b: "\<exists>zs. wire (snd (upload_loop c url file_path (get_api_key c) received (y # ys) idx w))
        = wire w @ zs
      \<and> uploads_of zs = map (\<lambda>n. (file_path, py_str (idx + int n))) [0..<length (y # ys)]"
    unfolding step shift using xs
    by (intro exI [of _ "?rq # xs"])
       (simp add: uploads_of_append [of "[?rq]" xs, simplified] uploads_of_post)
  have fc: "file_content (srv ?w') ?path = file_content (srv w) ?path @ y"
    by (simp add: file_content_def mark_chunk_received_fields append_file_fields)
  have c: "file_content (srv (snd (upload_loop c url file_path (get_api_key c) received (y # ys) idx w)))
        ?path = file_content (srv w) ?path @ concat (y # ys)"
    unfolding step using ih od fc by simp
  have img: "(\<lambda>n. (name, idx + int n)) ` {0..<length (y # ys)}
      = insert (name, idx) ((\<lambda>n. (name, idx + 1 + int n)) ` {0..<length ys})"
  proof -
    have e: "{0..<length (y # ys)} = insert 0 (Suc ` {0..<length ys})"
      by (auto simp: image_iff less_Suc_eq_0_disj)
    show ?thesis
      unfolding e by (simp only: image_insert image_image) (simp add: ac_simps)
  qed
  have d: "set (received_chunks (srv (snd (upload_loop c url file_path (get_api_key c) received
              (y # ys) idx w))))
      = set (received_chunks (srv w)) \<union> (\<lambda>n. (name, idx + int n)) ` {0..<length (y # ys)}"
    unfolding step img using ih
    by (simp add: mark_chunk_received_rows append_file_fields)
  show ?case using a b c d by blast
qed

lemma py_in_JInt: "py_in j (JInt ` S) \<longleftrightarrow> j \<in> S"
  by (auto simp: py_in_def)

lemma hashable_JInt: "list_all hashable (map JInt xs)"
  by (induction xs) (simp_all add: hashable_def)

lemma finite_get_received_chunks: "finite (get_received_chunks s name)"
  by (simp add: get_received_chunks_def)

lemma status_delivered:
  assumes net: "net w = []" and st: "url_target (status_url_of url name) = Some tgt"
    and pre: "prefix ''/upload/status'' tgt" and q: "query_filename tgt = Some name"
    and ne: "name \<noteq> []" and key: "api_key (srv w) = key"
  shows "get_received_chunks_client c url name key w =
     (JInt ` get_received_chunks (srv w) name,
      w\<lparr>net := [], wire := wire w @ [get_request tgt (''Bearer '' @ key)]\<rparr>)"
proof -
  let ?rq = "get_request tgt (''Bearer '' @ key)"
  let ?r = "send_json_response 200
     (JObj [(''filename'', JStr name),
            (''receivedChunks'',
               JList (map JInt (sorted_list_of_set (get_received_chunks (srv w) name))))])"
  have h: "serve (srv w) ?rq = \<lparr>reply = Some ?r, state = srv w, unread = []\<rparr>"
    using pre q ne key
    by (simp add: serve_def get_request_def handle_status_def header_get_def)
  have rp: "reply (serve (srv w) ?rq) = Some ?r" by (simp only: h outcome.simps)
  have stt: "state (serve (srv w) ?rq) = srv w" by (simp only: h outcome.simps)
  have sr: "send_request ?rq w = (Returned ?r, w\<lparr>net := [], wire := wire w @ [?rq]\<rparr>)"
    unfolding send_request_deliver [OF net rp] stt by simp
  have t: "status_try (Returned ?r) = Inr (JInt ` get_received_chunks (srv w) name)"
    by (simp add: status_try_def send_json_response_def raise_for_status_def py_set_def
        hashable_JInt finite_get_received_chunks)
  show ?thesis
    by (simp only: get_received_chunks_client_def requests_get_def st option.case sr
        prod.case t sum.case)
qed

lemma concat_read_chunks: "0 < n \<Longrightarrow> concat (read_chunks n f) = f"
proof (induction n f rule: read_chunks.induct)
  case (1 n f)
  then show ?case by (subst read_chunks.simps) simp
qed

lemma concat_file_chunks:
  "file_chunks n f = Inr cs \<Longrightarrow> n \<noteq> 0 \<Longrightarrow> concat cs = f"
  by (auto simp: file_chunks_def concat_read_chunks split: if_splits)

lemma resume_sends_missing_chunks:
  assumes R: "1 \<le> max_retries c" and url: "url_target server_url = Some ''/upload''"
    and st: "url_target (status_url_of server_url name) = Some tgt"
    and pre: "prefix ''/upload/status'' tgt" and q: "query_filename tgt = Some name"
    and ne: "name \<noteq> []" and pn: "path_name file_path = name"
    and net: "net w = []" and s: "serves (srv w) (get_api_key c) name"
    and lf: "local_files w file_path = Some content"
    and fc: "file_chunks (chunk_size c) content = Inr cs"
    and tr: "get_received_chunks (srv w) name = {0..<int k}"
    and k: "k \<le> length cs" and len: "int (length cs) \<le> 2 ^ 63"
  shows "fst (buffer_and_upload c file_path server_url w) = Inr ()
     \<and> uploads_of (drop (length (wire w)) (wire (snd (buffer_and_upload c file_path server_url w))))
         = map (\<lambda>n. (file_path, py_str (int k + int n))) [0..<length cs - k]
     \<and> file_content (srv (snd (buffer_and_upload c file_path server_url w)))
           (os_path_join (output_dir (srv w)) name)
         = file_content (srv w) (os_path_join (output_dir (srv w)) name) @ concat (drop k cs)
     \<and> get_received_chunks (srv (snd (buffer_and_upload c file_path server_url w))) name
         = {0..<int (length cs)}"
proof -
  define gt where "gt = get_request tgt (''Bearer '' @ get_api_key c)"
  define w1 where "w1 = w\<lparr>net := [], wire := wire w @ [gt]\<rparr>"
  define S where "S = JInt ` {0..<int k}"
  define res where
    "res = upload_loop c server_url file_path (get_api_key c) S (drop k cs) (int k) w1"
  have bn: "basename file_path = name"
    using pn ne by (simp add: path_name_def split: if_splits)
  have key: "api_key (srv w) = get_api_key c" using s by (simp add: serves_def)
  have g: "get_received_chunks_client c server_url name (get_api_key c) w = (S, w1)"
    using status_delivered [OF net st pre q ne key, where c = c] tr
    unfolding gt_def w1_def S_def by simp
  have skip: "upload_loop c server_url file_path (get_api_key c) S (take k cs @ drop k cs) 0 w1
      = res"
    using upload_loop_skip [of 0 "take k cs" S c server_url file_path "get_api_key c" "drop k cs" w1]
      k unfolding res_def S_def by (simp add: py_in_JInt min_def)
  have b: "buffer_and_upload c file_path server_url w = res"
    using skip by (simp add: buffer_and_upload_def Let_def lf pn g fc)
  have p1: "net w1 = []" by (simp add: w1_def)
  have p2: "serves (srv w1) (get_api_key c) name" using s by (simp add: w1_def)
  have p3: "\<forall>j. int k \<le> j \<longrightarrow> \<not> is_chunk_received (srv w1) name j"
    using tr by (auto simp: w1_def is_chunk_received_iff get_received_chunks_iff [symmetric])
  have p4: "\<forall>j. int k \<le> j \<longrightarrow> \<not> py_in j S" by (simp add: S_def py_in_JInt)
  have p5: "- (2 ^ 63) \<le> int k" by (rule order_trans [of _ 0]) simp_all
  have p6: "int k + int (length (drop k cs)) \<le> 2 ^ 63" using k len by simp
  note d = upload_loop_delivers [OF R url bn p1 p2 p3 p4 p5 p6, folded res_def]
  have sw: "srv w1 = srv w" "wire w1 = wire w @ [gt]" by (simp_all add: w1_def)
  obtain xs where xs: "wire (snd res) = wire w1 @ xs"
      "uploads_of xs = map (\<lambda>n. (file_path, py_str (int k + int n))) [0..<length (drop k cs)]"
    using d by blast
  have w: "drop (length (wire w)) (wire (snd res)) = gt # xs"
    by (simp add: xs(1) sw)
  have u: "uploads_of (gt # xs) = uploads_of xs"
    using uploads_of_append [of "[gt]" xs] by (simp add: uploads_of_get gt_def)
  have rows: "set (received_chunks (srv (snd res)))
      = set (received_chunks (srv w)) \<union> (\<lambda>n. (name, int k + int n)) ` {0..<length (drop k cs)}"
    using d by (simp add: sw)
  have t: "get_received_chunks (srv (snd res)) name = {0..<int (length cs)}"
  proof (rule set_eqI)
    fix j
    have "j \<in> get_received_chunks (srv (snd res)) name
        \<longleftrightarrow> j \<in> get_received_chunks (srv w) name \<or> (\<exists>n < length cs - k. j = int k + int n)"
      by (auto simp: get_received_chunks_iff rows)
    also have "\<dots> \<longleftrightarrow> (0 \<le> j \<and> j < int k) \<or> (int k \<le> j \<and> j < int (length cs))"
    proof -
      have "(\<exists>n < length cs - k. j = int k + int n) \<longleftrightarrow> (int k \<le> j \<and> j < int (length cs))"
      proof
        assume "\<exists>n < length cs - k. j = int k + int n"
        then show "int k \<le> j \<and> j < int (length cs)" using k by auto
      next
        assume a: "int k \<le> j \<and> j < int (length cs)"
        then have "nat (j - int k) < length cs - k" "j = int k + int (nat (j - int k))"
          using k by auto
        then show "\<exists>n < length cs - k. j = int k + int n" by blast
      qed
      then show ?thesis by (simp add: tr)
    qed
    also have "\<dots> \<longleftrightarrow> j \<in> {0..<int (length cs)}" using k by auto
    finally show "j \<in> get_received_chunks (srv (snd res)) name \<longleftrightarrow> j \<in> {0..<int (length cs)}" .
  qed
  have f: "file_content (srv (snd res)) (os_path_join (output_dir (srv w)) name)
      = file_content (srv w) (os_path_join (output_dir (srv w)) name) @ concat (drop k cs)"
    using d by (simp add: sw)
  show ?thesis
    unfolding b using d w u xs(2) t f by simp
qed

text \<open>
  The second run for \<open>/tmp/a.txt\<close> after the interruption is an instance: chunk 0 is
  recorded, chunks 1 and 2 are sent, and the target file holds the five bytes.
\<close>

lemma resume_example:
  "fst (buffer_and_upload example_client ''/tmp/a.txt'' example_url
          (interrupted_world ''/tmp/a.txt'')) = Inr ()
   \<and> uploads_of (wire (snd (buffer_and_upload example_client ''/tmp/a.txt'' example_url
          (interrupted_world ''/tmp/a.txt''))))
       = [(''/tmp/a.txt'', ''1''), (''/tmp/a.txt'', ''2'')]
   \<and> file_content (srv (snd (buffer_and_upload example_client ''/tmp/a.txt'' example_url
          (interrupted_world ''/tmp/a.txt'')))) ''out/a.txt'' = [1, 2, 3, 4, 5]
   \<and> get_received_chunks (srv (snd (buffer_and_upload example_client ''/tmp/a.txt''
          example_url (interrupted_world ''/tmp/a.txt'')))) ''a.txt'' = {0..<3}"
proof -
  let ?w = "interrupted_world ''/tmp/a.txt''"
  have R: "1 \<le> max_retries example_client" by code_simp
  have url: "url_target example_url = Some ''/upload''" by code_simp
  have st: "url_target (status_url_of example_url ''a.txt'')
      = Some ''/upload/status?filename=a.txt''" by code_simp
  have pre: "prefix ''/upload/status'' ''/upload/status?filename=a.txt''" by code_simp
  have q: "query_filename ''/upload/status?filename=a.txt'' = Some ''a.txt''" by code_simp
  have ne: "''a.txt'' \<noteq> []" by simp
  have pn: "path_name ''/tmp/a.txt'' = ''a.txt''" by code_simp
  have net: "net ?w = []" by code_simp
  have s: "serves (srv ?w) (get_api_key example_client) ''a.txt''" by code_simp
  have lf: "local_files ?w ''/tmp/a.txt'' = Some [1, 2, 3, 4, 5]" by code_simp
  have fc: "file_chunks (chunk_size example_client) [1, 2, 3, 4, 5] = Inr [[1, 2], [3, 4], [5]]"
    by code_simp
  have tr: "get_received_chunks (srv ?w) ''a.txt'' = {0..<int 1}" by code_simp
  have k: "1 \<le> length [[1, 2], [3, 4], [5::8 word]]" by simp
  have len: "int (length [[1, 2], [3, 4], [5::8 word]]) \<le> 2 ^ 63" by simp
  have wi: "wire ?w = []" by code_simp
  have od: "os_path_join (output_dir (srv ?w)) ''a.txt'' = ''out/a.txt''" by code_simp
  have old: "file_content (srv ?w) ''out/a.txt'' = [1, 2]" by code_simp
  have p1: "py_str 1 = ''1''" "py_str 2 = ''2''" by code_simp+
  have m: "map (\<lambda>n. (''/tmp/a.txt'', py_str (int 1 + int n))) [0..<length [[1, 2], [3, 4], [5::8 word]] - 1]
      = [(''/tmp/a.txt'', ''1''), (''/tmp/a.txt'', ''2'')]"
    by (simp add: p1 upt_rec)
  note r = resume_sends_missing_chunks [OF R url st pre q ne pn net s lf fc tr k len]
  show ?thesis
    using r unfolding wi od old m by simp
qed

text \<open>
  C1. The file \<open>/tmp/a&b.txt\<close> has three chunks. A first run of
  \<^verbatim>\<open>buffer_and_upload\<close> delivers chunk 0 and fails on chunk 1 after three attempts; the
  server has then recorded chunk 0 of \<open>a&b.txt\<close>. The second run asks for the status
  with the file name written into the URL as it is, the server reads the query as the
  file name \<open>a\<close>, and the client receives the empty set: it sends all three chunks
  again and not only chunks 1 and 2. The target file still ends with the five bytes of
  the source, since the server skips the chunk it has recorded. For \<open>/tmp/a.txt\<close> the
  same second run sends chunks 1 and 2 only.
\<close>

theorem resume_resends_confirmed_chunk:
  "fst (buffer_and_upload example_client ''/tmp/a&b.txt'' example_url
          (example_world\<lparr>net := interrupting_net\<rparr>))
     = Inl (RequestException 1 ''/tmp/a&b.txt'' (ConnectionFailed ''z''))
   \<and> get_received_chunks (srv (interrupted_world ''/tmp/a&b.txt'')) ''a&b.txt'' = {0}
   \<and> query_filename ''/upload/status?filename=a&b.txt'' = Some ''a''
   \<and> fst (get_received_chunks_client example_client example_url ''a&b.txt'' ''k''
          (interrupted_world ''/tmp/a&b.txt'')) = {}
   \<and> fst (buffer_and_upload example_client ''/tmp/a&b.txt'' example_url
          (interrupted_world ''/tmp/a&b.txt'')) = Inr ()
   \<and> map (\<lambda>rq. (rq_method rq, rq_target rq, x_chunk_index rq))
        (wire (snd (buffer_and_upload example_client ''/tmp/a&b.txt'' example_url
           (interrupted_world ''/tmp/a&b.txt''))))
      = [(GET, ''/upload/status?filename=a&b.txt'', None), (POST, ''/upload'', Some ''0''),
         (POST, ''/upload'', Some ''1''), (POST, ''/upload'', Some ''2'')]
   \<and> file_content (srv (snd (buffer_and_upload example_client ''/tmp/a&b.txt'' example_url
           (interrupted_world ''/tmp/a&b.txt'')))) ''out/a&b.txt'' = [1, 2, 3, 4, 5]
   \<and> map (\<lambda>rq. (rq_method rq, rq_target rq, x_chunk_index rq))
        (wire (snd (buffer_and_upload example_client ''/tmp/a.txt'' example_url
           (interrupted_world ''/tmp/a.txt''))))
      = [(GET, ''/upload/status?filename=a.txt'', None),
         (POST, ''/upload'', Some ''1''), (POST, ''/upload'', Some ''2'')]"
  by code_simp

end
